theory Spec2Isabelle
  imports Main
begin

section \<open>Strings and paths\<close>

text \<open>
  The source is TypeScript on Node. Strings are modelled as \<open>string\<close>; for ASCII text a
  JavaScript string's \<open>length\<close> is the length of the list. The functions of Node's
  \<open>path\<close> module (its POSIX flavour) that \<open>Khabind.ts\<close> calls are written out on
  path segments; \<open>cwd\<close> is the process's working directory, against which
  \<open>path.resolve\<close> and the \<open>fs\<close> calls read a relative path.
\<close>

text \<open>\<open>s.endsWith(x)\<close>.\<close>

definition endsWith :: "string \<Rightarrow> string \<Rightarrow> bool" where
  "endsWith s x = (length x \<le> length s \<and> drop (length s - length x) s = x)"

text \<open>\<open>s.substr(0, n)\<close>: a length below zero gives the empty string, one beyond the end
  gives the whole string.\<close>

definition substr0 :: "string \<Rightarrow> int \<Rightarrow> string" where
  "substr0 s n = take (nat n) s"

text \<open>\<open>s.split(c)\<close> for a one-character separator: empty pieces are kept.\<close>

fun split_on :: "char \<Rightarrow> string \<Rightarrow> string list" where
  "split_on c [] = [[]]"
| "split_on c (x # xs) =
     (if x = c then [] # split_on c xs
      else (case split_on c xs of [] \<Rightarrow> [[x]] | y # ys \<Rightarrow> (x # y) # ys))"

text \<open>\<open>xs.join(sep)\<close>.\<close>

fun join_with :: "string \<Rightarrow> string list \<Rightarrow> string" where
  "join_with sep [] = []"
| "join_with sep [x] = x"
| "join_with sep (x # y # ys) = x @ sep @ join_with sep (y # ys)"

definition isAbsolute :: "string \<Rightarrow> bool" where
  "isAbsolute p = (case p of [] \<Rightarrow> False | c # _ \<Rightarrow> c = CHR ''/'')"

definition segments :: "string \<Rightarrow> string list" where
  "segments p = filter (\<lambda>s. s \<noteq> []) (split_on (CHR ''/'') p)"

text \<open>Node's \<open>normalizeString\<close>: \<open>.\<close> is dropped, \<open>..\<close> removes the segment before it;
  above the start of a relative path (\<open>up\<close>) it is kept, at the root it is dropped.\<close>

fun normalizeSegs :: "bool \<Rightarrow> string list \<Rightarrow> string list \<Rightarrow> string list" where
  "normalizeSegs up acc [] = acc"
| "normalizeSegs up acc (s # ss) =
     (if s = ''.'' then normalizeSegs up acc ss
      else if s = ''..'' then
        (if acc \<noteq> [] \<and> last acc \<noteq> ''..'' then normalizeSegs up (butlast acc) ss
         else if up then normalizeSegs up (acc @ [''..'']) ss
         else normalizeSegs up acc ss)
      else normalizeSegs up (acc @ [s]) ss)"

text \<open>\<open>path.resolve(...args)\<close>: the arguments are read from the right until an absolute
  one is met, empty ones are skipped, and \<open>cwd\<close> is put in front when none is absolute.\<close>

definition resolveSegs :: "string \<Rightarrow> string list \<Rightarrow> string list" where
  "resolveSegs cwd args =
     (let (found, segs) =
            foldr (\<lambda>a (found, segs).
                     if found \<or> a = [] then (found, segs)
                     else (isAbsolute a, segments a @ segs))
                  args (False, [])
      in normalizeSegs False [] (if found then segs else segments cwd @ segs))"

definition path_resolve :: "string \<Rightarrow> string list \<Rightarrow> string" where
  "path_resolve cwd args = CHR ''/'' # join_with ''/'' (resolveSegs cwd args)"

text \<open>\<open>path.normalize\<close> and \<open>path.join\<close>.\<close>

definition path_normalize :: "string \<Rightarrow> string" where
  "path_normalize p =
     (let ab = isAbsolute p;
          trailing = (p \<noteq> [] \<and> last p = CHR ''/'');
          q = join_with ''/'' (normalizeSegs (\<not> ab) [] (segments p))
      in if q = [] then (if ab then ''/'' else if trailing then ''./'' else ''.'')
         else (if ab then ''/'' else []) @ q @ (if trailing then ''/'' else []))"

definition path_join :: "string list \<Rightarrow> string" where
  "path_join args =
     (let parts = filter (\<lambda>a. a \<noteq> []) args
      in if parts = [] then ''.'' else path_normalize (join_with ''/'' parts))"

text \<open>\<open>path.relative(from, to)\<close>: both are resolved, their common leading segments are
  dropped, and one \<open>..\<close> stands for each segment left of \<open>from\<close>.\<close>

fun dropCommon :: "string list \<Rightarrow> string list \<Rightarrow> string list \<times> string list" where
  "dropCommon (x # xs) (y # ys) = (if x = y then dropCommon xs ys else (x # xs, y # ys))"
| "dropCommon xs ys = (xs, ys)"

definition path_relative :: "string \<Rightarrow> string \<Rightarrow> string \<Rightarrow> string" where
  "path_relative cwd from to =
     (let (f, t) = dropCommon (resolveSegs cwd [from]) (resolveSegs cwd [to])
      in join_with ''/'' (map (\<lambda>_. ''..'') f @ t))"

text \<open>\<open>path.basename(p)\<close> and \<open>path.dirname(p)\<close>, as they read a path without doubled
  separators.\<close>

definition path_basename :: "string \<Rightarrow> string" where
  "path_basename p = (case segments p of [] \<Rightarrow> [] | ss \<Rightarrow> last ss)"

definition path_dirname :: "string \<Rightarrow> string" where
  "path_dirname p =
     (let d = join_with ''/'' (butlast (segments p))
      in if isAbsolute p then CHR ''/'' # d else if d = [] then ''.'' else d)"

text \<open>\<open>path.extname(p)\<close>: from the last dot of the last segment to its end; empty when
  that segment has no dot, when its only dot is its first character, or when it is
  \<open>..\<close>.\<close>

definition lastDot :: "string \<Rightarrow> nat option" where
  "lastDot b = (if CHR ''.'' \<in> set b
                then Some (length b - 1 - length (takeWhile (\<lambda>c. c \<noteq> CHR ''.'') (rev b)))
                else None)"

definition path_extname :: "string \<Rightarrow> string" where
  "path_extname p =
     (let b = path_basename p
      in case lastDot b of
           None \<Rightarrow> []
         | Some i \<Rightarrow> if i = 0 \<or> b = ''..'' then [] else drop i b)"

section \<open>The filesystem\<close>

text \<open>
  A filesystem is a tree: a file with its modification time (milliseconds, as
  \<open>Date.getTime()\<close> gives them), or a directory with its modification time and its
  entries in the order \<open>readdirSync\<close> lists them. Symbolic links are not modelled. The
  tree at the root is the whole filesystem.
\<close>

datatype fsnode = File int | Dir int "(string \<times> fsnode) list"

fun mtime :: "fsnode \<Rightarrow> int" where
  "mtime (File m) = m"
| "mtime (Dir m es) = m"

fun isDirectory :: "fsnode \<Rightarrow> bool" where
  "isDirectory (File m) = False"
| "isDirectory (Dir m es) = True"

fun lookup :: "fsnode \<Rightarrow> string list \<Rightarrow> fsnode option" where
  "lookup n [] = Some n"
| "lookup (File m) (s # ss) = None"
| "lookup (Dir m es) (s # ss) =
     (case map_of es s of None \<Rightarrow> None | Some n \<Rightarrow> lookup n ss)"

text \<open>\<open>fs.statSync(p)\<close>: \<open>None\<close> is the \<open>ENOENT\<close> it throws; \<open>fs.existsSync(p)\<close>.\<close>

definition statSync :: "string \<Rightarrow> fsnode \<Rightarrow> string \<Rightarrow> fsnode option" where
  "statSync cwd fs p = lookup fs (resolveSegs cwd [p])"

definition existsSync :: "string \<Rightarrow> fsnode \<Rightarrow> string \<Rightarrow> bool" where
  "existsSync cwd fs p = (statSync cwd fs p \<noteq> None)"

section \<open>What is thrown\<close>

datatype thrown = Msg string | ENOENT string | TypeError string

section \<open>Staleness of the bindings (lines 37 to 50 of generateBindings)\<close>

text \<open>
  The code keeps two flags, \<open>recompileAll\<close> and \<open>rebuildBindings\<close>; at most one of them
  is set. \<open>statSync\<close> throws for a file that is not there.
\<close>

definition evaluate :: "string \<Rightarrow> fsnode \<Rightarrow> string \<Rightarrow> string \<Rightarrow> string \<Rightarrow> thrown + bool \<times> bool" where
  "evaluate cwd fs khafile webidlFile jsLibrary =
     (if existsSync cwd fs jsLibrary then
        (case statSync cwd fs khafile of
           None \<Rightarrow> Inl (ENOENT khafile)
         | Some k \<Rightarrow>
            (case statSync cwd fs jsLibrary of
               None \<Rightarrow> Inl (ENOENT jsLibrary)
             | Some j \<Rightarrow>
                 if mtime k > mtime j then Inr (True, False)
                 else
                   (case statSync cwd fs webidlFile of
                      None \<Rightarrow> Inl (ENOENT webidlFile)
                    | Some w \<Rightarrow>
                       (case statSync cwd fs jsLibrary of
                          None \<Rightarrow> Inl (ENOENT jsLibrary)
                        | Some j' \<Rightarrow>
                            if mtime w > mtime j' then Inr (False, True)
                            else Inr (False, False)))))
      else Inr (False, True))"

text \<open>The three verdicts, as the two flags are used afterwards: the binding generator
  runs when either is set, and is told \<open>recompileAll\<close>.\<close>

datatype verdict = NoOp | RebuildBindingsOnly | RebuildAll

fun verdict_of :: "bool \<times> bool \<Rightarrow> verdict" where
  "verdict_of (recompileAll, rebuildBindings) =
     (if recompileAll then RebuildAll
      else if rebuildBindings then RebuildBindingsOnly else NoOp)"

definition staleness :: "string \<Rightarrow> fsnode \<Rightarrow> string \<Rightarrow> string \<Rightarrow> string \<Rightarrow> thrown + verdict" where
  "staleness cwd fs khafile webidlFile jsLibrary =
     map_sum id verdict_of (evaluate cwd fs khafile webidlFile jsLibrary)"

section \<open>Source discovery (addSources, lines 92 to 102)\<close>

text \<open>
  \<open>addSources(dir)\<close> pushes onto the shared array \<open>sourceFiles\<close>; here the array is
  passed in and returned. \<open>addSourcesIn\<close> is the loop over \<open>readdirSync(dir)\<close>: the kind
  of each entry is what \<open>statSync(path.resolve(dir, item)).isDirectory()\<close> tells, and the
  recursive call on a directory entry reads that entry's own listing.
\<close>

fun addSourcesIn :: "string \<Rightarrow> string \<Rightarrow> (string \<times> fsnode) list \<Rightarrow> string list \<Rightarrow> string list" where
  "addSourcesIn cwd dir [] sourceFiles = sourceFiles"
| "addSourcesIn cwd dir ((item, Dir m es) # rest) sourceFiles =
     addSourcesIn cwd dir rest
       (addSourcesIn cwd (path_resolve cwd [dir, item]) es sourceFiles)"
| "addSourcesIn cwd dir ((item, File m) # rest) sourceFiles =
     addSourcesIn cwd dir rest
       (if endsWith item ''.cpp'' \<or> endsWith item ''.c''
        then sourceFiles @ [path_resolve cwd [dir, item]]
        else sourceFiles)"

definition addSources :: "string \<Rightarrow> fsnode \<Rightarrow> string \<Rightarrow> string list \<Rightarrow> string list" where
  "addSources cwd fs dir sourceFiles =
     (case statSync cwd fs dir of
        None \<Rightarrow> sourceFiles
      | Some (File m) \<Rightarrow> sourceFiles
      | Some (Dir m es) \<Rightarrow> addSourcesIn cwd dir es sourceFiles)"

text \<open>The files of a directory tree, at any depth, each with its absolute path and its
  name: a file entry of the directory itself, or a file under one of its directory
  entries.\<close>

inductive fileUnder :: "string \<Rightarrow> string \<Rightarrow> (string \<times> fsnode) list \<Rightarrow> string \<Rightarrow> string \<Rightarrow> bool"
  for cwd :: string where
  here: "(item, File m) \<in> set es \<Longrightarrow> fileUnder cwd dir es (path_resolve cwd [dir, item]) item"
| below: "(item, Dir m es') \<in> set es \<Longrightarrow> fileUnder cwd (path_resolve cwd [dir, item]) es' p name
     \<Longrightarrow> fileUnder cwd dir es p name"

section \<open>The object artifact of a source (lines 112 to 114 of compileSource)\<close>

definition targetFileOf :: "string \<Rightarrow> string \<Rightarrow> string \<Rightarrow> string" where
  "targetFileOf cwd libRoot file =
     (let relativeSource = path_relative cwd libRoot file;
          relativeTargetFile =
            substr0 relativeSource (int (length file) - int (length (path_extname file))) @ ''.bc''
      in path_resolve cwd [libRoot, ''khabind'', ''bytecode'', relativeTargetFile])"

section \<open>The world outside and the state of one run\<close>

text \<open>
  What one call of \<open>generateBindings\<close> does to the outside is recorded, in order, as a
  list of events: the log lines, the reads of \<open>process.env.EMSCRIPTEN\<close>, the writes, and
  the subprocesses.
\<close>

datatype event =
    LogInfo string
  | LogError string
  | ExecuteHaxe string string "string list"
  | WriteFile string string
  | EnsureDirSync string
  | ReadEnv
  | Spawn string "string list" string
  | SpawnSync string "string list" string

text \<open>A variable declared \<open>string\<close> that may hold \<open>undefined\<close> (\<open>emsdk\<close> after
  reading a variable the environment does not have).\<close>

datatype jsstring = Undefined | Str string

text \<open>The fields of \<open>Options\<close> and of \<open>KhabindOptions\<close> that \<open>generateBindings\<close> reads
  (\<open>chopPrefix\<close>, \<open>autoGC\<close> and \<open>includes\<close> are not read here). An
  \<open>emccOptimizationLevel\<close> that is empty is falsy.\<close>

record Options =
  target :: string
  haxe :: string
  kha :: string

record KhabindOptions =
  idlFile :: string
  nativeLib :: string
  sourcesDir :: string
  emccOptimizationLevel :: string
  emccArgs :: "string list"

text \<open>A compiler subprocess, as the listeners of \<open>compileSource\<close> see it: the chunks its
  stderr delivers and the code it closes with. The output of \<open>spawnSync\<close>.\<close>

record proc =
  stderr_data :: "string list"
  exit_code :: int

record syncout =
  out_stdout :: string
  out_stderr :: string
  out_status :: int

text \<open>
  The world is a parameter of the model: the working directory, the environment variable
  \<open>EMSCRIPTEN\<close> (\<open>None\<close> when it is not set), and what the external actions do to the
  filesystem and answer. \<open>executeHaxe\<close> (of \<open>Haxe.ts\<close>) rejects with a message or
  succeeds; \<open>ensureDirSync\<close> may throw (\<open>None\<close>); a subprocess is taken to start and to
  close, with any output and any exit code.
\<close>

record world =
  workdir :: string
  env_EMSCRIPTEN :: "string option"
  executeHaxe :: "string \<Rightarrow> string \<Rightarrow> string list \<Rightarrow> fsnode \<Rightarrow> string + fsnode"
  writeFile :: "string \<Rightarrow> string \<Rightarrow> fsnode \<Rightarrow> fsnode"
  ensureDirSync :: "string \<Rightarrow> fsnode \<Rightarrow> fsnode option"
  spawn :: "string \<Rightarrow> string list \<Rightarrow> string \<Rightarrow> fsnode \<Rightarrow> proc \<times> fsnode"
  spawnSync :: "string \<Rightarrow> string list \<Rightarrow> string \<Rightarrow> fsnode \<Rightarrow> syncout \<times> fsnode"

text \<open>The filesystem, the events so far, and the variables that the helper functions of
  \<open>generateBindings\<close> close over.\<close>

record state =
  disk :: fsnode
  trace :: "event list"
  emsdk :: jsstring
  emcc :: string
  sourceFiles :: "string list"
  targetFiles :: "string list"
  invalidateCache :: bool

definition emit :: "event \<Rightarrow> state \<Rightarrow> state" where
  "emit e s = s\<lparr>trace := trace s @ [e]\<rparr>"

section \<open>The toolchain (ensureEmscripten, lines 75 to 84)\<close>

definition emscriptenMsg :: string where
  "emscriptenMsg =
     ''EMSCRIPTEN environment variable not set cannot compile C++ library for Javascript''"

text \<open>The result is what the call throws, if it throws. \<open>emsdk != ""\<close> holds for
  \<open>undefined\<close> too.\<close>

definition ensureEmscripten :: "world \<Rightarrow> state \<Rightarrow> thrown option \<times> state" where
  "ensureEmscripten w s =
     (if emsdk s \<noteq> Str [] then (None, s)
      else
        (let s1 = emit ReadEnv
                    (s\<lparr>emsdk := (case env_EMSCRIPTEN w of None \<Rightarrow> Undefined | Some v \<Rightarrow> Str v)\<rparr>)
         in case emsdk s1 of
              Undefined \<Rightarrow> (Some (Msg emscriptenMsg), emit (LogError emscriptenMsg) s1)
            | Str v \<Rightarrow> (None, s1\<lparr>emcc := path_join [v, ''emcc'']\<rparr>)))"

section \<open>One compilation unit (compileSource, lines 109 to 150)\<close>

text \<open>How the promise of a unit ends. The executor passed to \<open>new Promise\<close> is an
  \<open>async\<close> function: what is thrown inside it, or a rejected \<open>await\<close>, rejects the
  executor's own promise and calls neither \<open>resolve\<close> nor \<open>reject\<close>, so the unit's
  promise stays pending.\<close>

datatype settled = Resolved | Rejected string | Pending

text \<open>The test of lines 119 to 124, without its effects: whether the source needs the
  compiler. \<open>None\<close>: \<open>fs.stat\<close> rejected. With \<open>recompileAll\<close> the times are not read.\<close>

definition isStale :: "string \<Rightarrow> fsnode \<Rightarrow> bool \<Rightarrow> string \<Rightarrow> string \<Rightarrow> bool option" where
  "isStale cwd fs recompileAll file targetFile =
     (if existsSync cwd fs targetFile then
        (if recompileAll then Some True
         else (case statSync cwd fs file of
                 None \<Rightarrow> None
               | Some f \<Rightarrow>
                  (case statSync cwd fs targetFile of
                     None \<Rightarrow> None
                   | Some t \<Rightarrow> Some (mtime f > mtime t))))
      else Some True)"

text \<open>The arguments of the compiler, and the listeners: \<open>stderr += data.toString()\<close> for
  each chunk, and on \<open>close\<close> the test of the accumulated text.\<close>

definition compileArgs :: "string \<Rightarrow> string \<Rightarrow> string \<Rightarrow> string \<Rightarrow> string list" where
  "compileArgs optimizationArg srcDir file targetFile =
     [optimizationArg, ''-I'' @ srcDir, ''-c'', file, ''-o'', targetFile]"

definition onClose :: "int \<Rightarrow> string \<Rightarrow> settled" where
  "onClose code stderr = (if stderr \<noteq> [] then Rejected stderr else Resolved)"

text \<open>The result is \<open>needsRecompile\<close> and how the promise ends; \<open>srcDir\<close> is the
  resolved \<open>sourcesDir\<close> of line 86.\<close>

definition compileSource ::
  "world \<Rightarrow> string \<Rightarrow> string \<Rightarrow> string \<Rightarrow> bool \<Rightarrow> string \<Rightarrow> state \<Rightarrow> (bool \<times> settled) \<times> state" where
  "compileSource w libRoot srcDir optimizationArg recompileAll file s =
     (let targetFile = targetFileOf (workdir w) libRoot file;
          s0 = emit (EnsureDirSync (path_dirname targetFile)) s
      in case ensureDirSync w (path_dirname targetFile) (disk s0) of
           None \<Rightarrow> ((False, Pending), s0)
         | Some d1 \<Rightarrow>
            (let s1 = s0\<lparr>disk := d1, targetFiles := targetFiles s0 @ [targetFile]\<rparr>
             in case isStale (workdir w) (disk s1) recompileAll file targetFile of
                  None \<Rightarrow> ((False, Pending), s1)
                | Some False \<Rightarrow> ((False, Resolved), s1)
                | Some True \<Rightarrow>
                   (case ensureEmscripten w s1 of
                      (Some e, s2) \<Rightarrow> ((False, Pending), s2)
                    | (None, s2) \<Rightarrow>
                       (let args = compileArgs optimizationArg srcDir file targetFile;
                            s3 = emit (Spawn (emcc s2) args libRoot)
                                   (emit (LogInfo (''    Compiling '' @
                                            path_relative (workdir w) libRoot file))
                                      (s2\<lparr>invalidateCache := True\<rparr>));
                            (p, d2) = spawn w (emcc s2) args libRoot (disk s3);
                            stderr = fold (\<lambda>data stderr. stderr @ data) (stderr_data p) []
                        in ((True, onClose (exit_code p) stderr), s3\<lparr>disk := d2\<rparr>)))))"

section \<open>The compiler jobs (Throttle.all, lines 153 to 159)\<close>

text \<open>
  \<open>Throttle.all\<close> with \<open>failFast\<close> (of the library promise-parallel-throttle) is
  modelled with one unit in progress at a time, in the order of \<open>sourceFiles\<close>: a
  rejected unit rejects the whole with its error and no later unit is started; a unit
  whose promise stays pending leaves the whole pending.
\<close>

fun runJobs ::
  "world \<Rightarrow> string \<Rightarrow> string \<Rightarrow> string \<Rightarrow> bool \<Rightarrow> string list \<Rightarrow> state \<Rightarrow> settled \<times> state" where
  "runJobs w libRoot srcDir optimizationArg recompileAll [] s = (Resolved, s)"
| "runJobs w libRoot srcDir optimizationArg recompileAll (file # files) s =
     (case compileSource w libRoot srcDir optimizationArg recompileAll file s of
        ((n, Resolved), s') \<Rightarrow> runJobs w libRoot srcDir optimizationArg recompileAll files s'
      | ((n, Rejected err), s') \<Rightarrow> (Rejected err, s')
      | ((n, Pending), s') \<Rightarrow> (Pending, s'))"

section \<open>The link (lines 162 to 182)\<close>

definition linkArgs :: "string \<Rightarrow> KhabindOptions \<Rightarrow> string \<Rightarrow> string list" where
  "linkArgs optimizationArg bindOpts joined =
     [optimizationArg,
      ''-s'', ''EXPORT_NAME='' @ nativeLib bindOpts, ''-s'', ''MODULARIZE=1'',
      ''-s'', ''SINGLE_FILE=1'', ''-s'', ''WASM=0'']
     @ split_on (CHR '' '') joined
     @ [''-o'', path_join [''khabind'', nativeLib bindOpts] @ ''.js'']"

text \<open>The result is what the stage throws, if it throws. \<open>reduce\<close> without an initial
  value throws a \<open>TypeError\<close> on an empty array.\<close>

definition linkStage :: "world \<Rightarrow> string \<Rightarrow> KhabindOptions \<Rightarrow> string \<Rightarrow> state \<Rightarrow> thrown option \<times> state" where
  "linkStage w libRoot bindOpts optimizationArg s =
     (if invalidateCache s \<or>
         \<not> existsSync (workdir w) (disk s)
             (path_join [libRoot, ''khabind'', nativeLib bindOpts @ ''.js''])
      then
        (case ensureEmscripten w (emit (LogInfo ''    Linking Javascript Library'') s) of
           (Some e, s2) \<Rightarrow> (Some e, s2)
         | (None, s2) \<Rightarrow>
            (case emccArgs bindOpts of
               [] \<Rightarrow> (Some (TypeError ''Reduce of empty array with no initial value''), s2)
             | a # as \<Rightarrow>
                (let args = linkArgs optimizationArg bindOpts (foldl (\<lambda>a b. a @ '' '' @ b) a as);
                     s3 = emit (SpawnSync (emcc s2) (targetFiles s2 @ args) libRoot)
                            (emit (LogInfo (''    running emcc: emcc '' @ join_with '' '' args)) s2);
                     (output, d) = spawnSync w (emcc s2) (targetFiles s2 @ args) libRoot (disk s3);
                     s4 = s3\<lparr>disk := d\<rparr>;
                     s5 = (if out_stderr output \<noteq> [] then emit (LogError (out_stderr output)) s4
                           else s4);
                     s6 = (if out_stdout output \<noteq> [] then emit (LogInfo (out_stdout output)) s5
                           else s5)
                 in (None, s6))))
      else (None, s))"

section \<open>Compiling to JavaScript (lines 72 to 183)\<close>

text \<open>How a call of \<open>generateBindings\<close> ends: its promise resolves, rejects with what
  was thrown, or never settles.\<close>

datatype outcome = Returned | Threw thrown | NeverReturns

definition optimizationArgOf :: "KhabindOptions \<Rightarrow> string" where
  "optimizationArgOf bindOpts =
     (if emccOptimizationLevel bindOpts \<noteq> [] then ''-O'' @ emccOptimizationLevel bindOpts
      else ''-O2'')"

text \<open>Lines 73 to 106: the variables are initialised and the two roots are searched.\<close>

definition startBuild :: "world \<Rightarrow> string \<Rightarrow> KhabindOptions \<Rightarrow> state \<Rightarrow> state" where
  "startBuild w libRoot bindOpts s =
     (let s0 = s\<lparr>emsdk := Str [], emcc := [], sourceFiles := [], targetFiles := [],
                 invalidateCache := False\<rparr>;
          srcDir = path_resolve (workdir w) [libRoot, sourcesDir bindOpts];
          s1 = s0\<lparr>sourceFiles := addSources (workdir w) (disk s0) srcDir (sourceFiles s0)\<rparr>
      in s1\<lparr>sourceFiles := addSources (workdir w) (disk s1)
                 (path_resolve (workdir w) [libRoot, ''khabind'']) (sourceFiles s1)\<rparr>)"

text \<open>Lines 73 to 156: the search and the jobs, up to the promise of \<open>Throttle.all\<close>.\<close>

definition compileAll :: "world \<Rightarrow> string \<Rightarrow> KhabindOptions \<Rightarrow> bool \<Rightarrow> state \<Rightarrow> settled \<times> state" where
  "compileAll w libRoot bindOpts recompileAll s =
     (let s1 = startBuild w libRoot bindOpts s
      in runJobs w libRoot (path_resolve (workdir w) [libRoot, sourcesDir bindOpts])
           (optimizationArgOf bindOpts) recompileAll (sourceFiles s1) s1)"

text \<open>The rejection of the jobs is caught and logged (lines 157 to 159), and the link
  follows in both cases.\<close>

definition emscriptenBuild :: "world \<Rightarrow> string \<Rightarrow> KhabindOptions \<Rightarrow> bool \<Rightarrow> state \<Rightarrow> outcome \<times> state" where
  "emscriptenBuild w libRoot bindOpts recompileAll s =
     (case compileAll w libRoot bindOpts recompileAll s of
        (Pending, s2) \<Rightarrow> (NeverReturns, s2)
      | (r, s2) \<Rightarrow>
         (case linkStage w libRoot bindOpts (optimizationArgOf bindOpts)
                 (case r of Rejected err \<Rightarrow> emit (LogInfo err) s2 | _ \<Rightarrow> s2) of
            (Some e, s3) \<Rightarrow> (Threw e, s3)
          | (None, s3) \<Rightarrow> (Returned, s3)))"

section \<open>generateBindings\<close>

definition korefileContent :: "string \<Rightarrow> KhabindOptions \<Rightarrow> string" where
  "korefileContent libRoot bindOpts =
     ''let project = new Project('' @ [CHR 0x27] @ path_basename libRoot @ [CHR 0x27]
       @ '', __dirname);'' @ [CHR 0x0A]
     @ ''project.addFile('' @ [CHR 0x27] @ sourcesDir bindOpts @ ''/**'' @ [CHR 0x27]
       @ '');'' @ [CHR 0x0A]
     @ ''project.addIncludeDir('' @ [CHR 0x27] @ sourcesDir bindOpts @ [CHR 0x27]
       @ '');'' @ [CHR 0x0A]
     @ ''project.addFile('' @ [CHR 0x27] @ ''khabind/'' @ nativeLib bindOpts @ ''.cpp''
       @ [CHR 0x27] @ '');'' @ [CHR 0x0A]
     @ ''resolve(project);'' @ [CHR 0x0A]"

definition haxeArgs :: "string \<Rightarrow> Options \<Rightarrow> bool \<Rightarrow> string list" where
  "haxeArgs cwd options recompileAll =
     [''-cp'', path_resolve cwd [kha options, ''Sources''],
      ''-cp'', path_resolve cwd [kha options, ''Tools'', ''webidl''],
      ''--macro'', ''kha.internal.WebIdlBinder.generate(''
          @ (if recompileAll then ''true'' else ''false'') @ '')'']"

definition jsTarget :: "Options \<Rightarrow> bool" where
  "jsTarget options = (target options = ''krom'' \<or> endsWith (target options) ''html5'')"

text \<open>Lines 62 to 186: the Korefile is written (the write is not awaited), the library
  is compiled to JavaScript for Krom and HTML5, and the last line is logged.\<close>

definition afterBindings ::
  "world \<Rightarrow> string \<Rightarrow> KhabindOptions \<Rightarrow> Options \<Rightarrow> bool \<Rightarrow> state \<Rightarrow> outcome \<times> state" where
  "afterBindings w libRoot bindOpts options recompileAll s =
     (let korefile = path_resolve (workdir w) [libRoot, ''korefile.js''];
          content = korefileContent libRoot bindOpts;
          s1 = (emit (WriteFile korefile content) s)\<lparr>disk := writeFile w korefile content (disk s)\<rparr>;
          finish = emit (LogInfo (''Done generating bindings for: '' @ path_basename libRoot))
      in if jsTarget options then
           (case emscriptenBuild w libRoot bindOpts recompileAll s1 of
              (Returned, s2) \<Rightarrow> (Returned, finish s2)
            | (r, s2) \<Rightarrow> (r, s2))
         else (Returned, finish s1))"

definition generateBindings ::
  "world \<Rightarrow> string \<Rightarrow> KhabindOptions \<Rightarrow> Options \<Rightarrow> bool \<Rightarrow> state \<Rightarrow> outcome \<times> state" where
  "generateBindings w libRoot bindOpts options korehl s =
     (if \<not> jsTarget options \<and> \<not> korehl then
        (Returned,
         emit (LogInfo (''WARNING: Auto-binding library '' @ [CHR 0x22] @ path_basename libRoot
                 @ [CHR 0x22] @ '' to Haxe for target '' @ target options
                 @ '' is not supported.'')) s)
      else
        (let s1 = emit (LogInfo (''Generating bindings for: '' @ path_basename libRoot)) s;
             cwd = workdir w;
             khafile = path_resolve cwd [libRoot, ''khafile.js''];
             webidlFile = path_resolve cwd [libRoot, idlFile bindOpts];
             jsLibrary = path_resolve cwd [libRoot, ''khabind'', nativeLib bindOpts @ ''.js'']
         in case evaluate cwd (disk s1) khafile webidlFile jsLibrary of
              Inl e \<Rightarrow> (Threw e, s1)
            | Inr (recompileAll, rebuildBindings) \<Rightarrow>
               if recompileAll \<or> rebuildBindings then
                 (let args = haxeArgs cwd options recompileAll;
                      s2 = emit (ExecuteHaxe libRoot (haxe options) args) s1
                  in case executeHaxe w libRoot (haxe options) args (disk s2) of
                       Inl err \<Rightarrow> (Threw (Msg err), s2)
                     | Inr d \<Rightarrow> afterBindings w libRoot bindOpts options recompileAll (s2\<lparr>disk := d\<rparr>))
               else afterBindings w libRoot bindOpts options recompileAll s1))"

section \<open>Worlds and inputs for the examples\<close>

text \<open>A world whose subprocesses print what those of \<open>w\<close> print and close with other
  codes.\<close>

definition withExitCodes :: "(int \<Rightarrow> int) \<Rightarrow> (int \<Rightarrow> int) \<Rightarrow> world \<Rightarrow> world" where
  "withExitCodes f g w =
     w\<lparr>spawn := (\<lambda>cmd args cwd d.
                   case spawn w cmd args cwd d of (p, d') \<Rightarrow> (p\<lparr>exit_code := f (exit_code p)\<rparr>, d')),
       spawnSync := (\<lambda>cmd args cwd d.
                   case spawnSync w cmd args cwd d of
                     (output, d') \<Rightarrow> (output\<lparr>out_status := g (out_status output)\<rparr>, d'))\<rparr>"

text \<open>A world in which every tool succeeds silently and leaves the filesystem as it is,
  with the toolchain at \<open>/emsdk\<close>.\<close>

definition quietWorld :: world where
  "quietWorld =
     \<lparr> workdir = ''/'', env_EMSCRIPTEN = Some ''/emsdk'',
       executeHaxe = (\<lambda>from dir args d. Inr d),
       writeFile = (\<lambda>file content d. d),
       ensureDirSync = (\<lambda>dir d. Some d),
       spawn = (\<lambda>cmd args cwd d. (\<lparr>stderr_data = [], exit_code = 0\<rparr>, d)),
       spawnSync = (\<lambda>cmd args cwd d. (\<lparr>out_stdout = [], out_stderr = [], out_status = 0\<rparr>, d)) \<rparr>"

text \<open>The same world with a compiler that prints to stderr, in two chunks, and exits
  with code 0.\<close>

definition complainingWorld :: world where
  "complainingWorld =
     quietWorld\<lparr>spawn := (\<lambda>cmd args cwd d.
        (\<lparr>stderr_data = [''foo.cpp:1: '', ''error''], exit_code = 0\<rparr>, d))\<rparr>"

definition state0 :: "fsnode \<Rightarrow> state" where
  "state0 d = \<lparr> disk = d, trace = [], emsdk = Str [], emcc = [], sourceFiles = [],
                targetFiles = [], invalidateCache = False \<rparr>"

definition demoBind :: KhabindOptions where
  "demoBind = \<lparr> idlFile = ''api.idl'', nativeLib = ''api'', sourcesDir = ''src'',
                 emccOptimizationLevel = [], emccArgs = [''-s'', ''X=1''] \<rparr>"

definition kromOptions :: Options where
  "kromOptions = \<lparr> target = ''krom'', haxe = ''/haxe'', kha = ''/kha'' \<rparr>"

text \<open>The quiet world with a linker that prints to both streams and exits with code 1.\<close>

definition noisyLinkerWorld :: world where
  "noisyLinkerWorld =
     quietWorld\<lparr>spawnSync := (\<lambda>cmd args cwd d.
        (\<lparr>out_stdout = ''linked'', out_stderr = ''warning: unused'', out_status = 1\<rparr>, d))\<rparr>"

text \<open>A library at \<open>/lib\<close> whose bindings are up to date, with one source: without an
  object artifact (\<open>oneSource\<close>), or with one (\<open>builtSource o\<close>, the artifact's time
  being \<open>o\<close> and the source's 5).\<close>

definition oneSource :: fsnode where
  "oneSource =
     Dir 0 [(''lib'', Dir 0 [(''khafile.js'', File 1), (''api.idl'', File 1),
       (''src'', Dir 0 [(''foo.cpp'', File 5)]),
       (''khabind'', Dir 0 [(''api.js'', File 2)])])]"

definition builtSource :: "int \<Rightarrow> fsnode" where
  "builtSource t =
     Dir 0 [(''lib'', Dir 0 [(''khafile.js'', File 1), (''api.idl'', File 1),
       (''src'', Dir 0 [(''foo.cpp'', File 5)]),
       (''khabind'', Dir 0 [(''api.js'', File 2),
          (''bytecode'', Dir 0 [(''src'', Dir 0 [(''foo.cpp.bc'', File t)])])])])]"

section \<open>The state of the toolchain variables\<close>

text \<open>\<open>resolved\<close>: \<open>emsdk\<close> holds the value of the environment variable. \<open>toolInv\<close>: it
  holds that value or is still the empty string it was initialised with.\<close>

definition resolved :: "world \<Rightarrow> state \<Rightarrow> bool" where
  "resolved w s = (\<exists>v. emsdk s = Str v \<and> env_EMSCRIPTEN w = Some v)"

definition toolInv :: "world \<Rightarrow> state \<Rightarrow> bool" where
  "toolInv w s = (emsdk s = Str [] \<or> resolved w s)"

text \<open>How often a trace reads the environment variable, and the memoization of a
  non-empty value \<open>v\<close> in a run that began with \<open>n\<close> reads: not yet read, or read once
  and kept.\<close>

definition reads :: "event list \<Rightarrow> nat" where
  "reads tr = length (filter (\<lambda>e. e = ReadEnv) tr)"

definition memo :: "string \<Rightarrow> nat \<Rightarrow> state \<Rightarrow> bool" where
  "memo v n s = ((emsdk s = Str [] \<and> reads (trace s) = n) \<or>
                 (emsdk s = Str v \<and> reads (trace s) \<le> n + 1))"

section \<open>Staleness: the case order\<close>

text \<open>
  C1. The verdict is decided by whether the binding artifact (\<open>jsLibrary\<close>) exists and by
  the modification times of the configuration file (\<open>khafile\<close>), the description file
  (\<open>webidlFile\<close>) and the binding, in this order: no binding, RebuildBindingsOnly;
  else configuration newer than the binding, RebuildAll, whatever the description file
  is (it is not even read); else description newer than the binding,
  RebuildBindingsOnly; else NoOp.
\<close>

theorem staleness_case_order:
  "(\<not> existsSync cwd fs jsLibrary \<longrightarrow>
      staleness cwd fs khafile webidlFile jsLibrary = Inr RebuildBindingsOnly) \<and>
   (\<forall>j k. statSync cwd fs jsLibrary = Some j \<and> statSync cwd fs khafile = Some k \<and>
      mtime k > mtime j \<longrightarrow>
      staleness cwd fs khafile webidlFile jsLibrary = Inr RebuildAll) \<and>
   (\<forall>j k w. statSync cwd fs jsLibrary = Some j \<and> statSync cwd fs khafile = Some k \<and>
      statSync cwd fs webidlFile = Some w \<and> \<not> mtime k > mtime j \<and> mtime w > mtime j \<longrightarrow>
      staleness cwd fs khafile webidlFile jsLibrary = Inr RebuildBindingsOnly) \<and>
   (\<forall>j k w. statSync cwd fs jsLibrary = Some j \<and> statSync cwd fs khafile = Some k \<and>
      statSync cwd fs webidlFile = Some w \<and> \<not> mtime k > mtime j \<and> \<not> mtime w > mtime j \<longrightarrow>
      staleness cwd fs khafile webidlFile jsLibrary = Inr NoOp)"
  by (simp add: staleness_def evaluate_def existsSync_def)

theorem staleness_case_order_witness:
  "staleness ''/'' (Dir 0 [(''lib'', Dir 0 [(''khafile.js'', File 9), (''api.idl'', File 9)])])
     ''/lib/khafile.js'' ''/lib/api.idl'' ''/lib/khabind/api.js'' = Inr RebuildBindingsOnly \<and>
   staleness ''/'' (Dir 0 [(''lib'', Dir 0 [(''khafile.js'', File 9),
       (''khabind'', Dir 0 [(''api.js'', File 5)])])])
     ''/lib/khafile.js'' ''/lib/api.idl'' ''/lib/khabind/api.js'' = Inr RebuildAll \<and>
   staleness ''/'' (Dir 0 [(''lib'', Dir 0 [(''khafile.js'', File 5), (''api.idl'', File 7),
       (''khabind'', Dir 0 [(''api.js'', File 5)])])])
     ''/lib/khafile.js'' ''/lib/api.idl'' ''/lib/khabind/api.js'' = Inr RebuildBindingsOnly \<and>
   staleness ''/'' (Dir 0 [(''lib'', Dir 0 [(''khafile.js'', File 5), (''api.idl'', File 5),
       (''khabind'', Dir 0 [(''api.js'', File 5)])])])
     ''/lib/khafile.js'' ''/lib/api.idl'' ''/lib/khabind/api.js'' = Inr NoOp"
proof -
  let ?kha = "''/lib/khafile.js''" and ?idl = "''/lib/api.idl''" and ?js = "''/lib/khabind/api.js''"
  let ?fs1 = "Dir 0 [(''lib'', Dir 0 [(''khafile.js'', File 9), (''api.idl'', File 9)])]"
  let ?fs2 = "Dir 0 [(''lib'', Dir 0 [(''khafile.js'', File 9),
       (''khabind'', Dir 0 [(''api.js'', File 5)])])]"
  let ?fs3 = "Dir 0 [(''lib'', Dir 0 [(''khafile.js'', File 5), (''api.idl'', File 7),
       (''khabind'', Dir 0 [(''api.js'', File 5)])])]"
  let ?fs4 = "Dir 0 [(''lib'', Dir 0 [(''khafile.js'', File 5), (''api.idl'', File 5),
       (''khabind'', Dir 0 [(''api.js'', File 5)])])]"
  have a1: "\<not> existsSync ''/'' ?fs1 ?js" by code_simp
  have a2: "statSync ''/'' ?fs2 ?js = Some (File 5)" "statSync ''/'' ?fs2 ?kha = Some (File 9)"
    by code_simp+
  have a3: "statSync ''/'' ?fs3 ?js = Some (File 5)" "statSync ''/'' ?fs3 ?kha = Some (File 5)"
    "statSync ''/'' ?fs3 ?idl = Some (File 7)"
    by code_simp+
  have a4: "statSync ''/'' ?fs4 ?js = Some (File 5)" "statSync ''/'' ?fs4 ?kha = Some (File 5)"
    "statSync ''/'' ?fs4 ?idl = Some (File 5)"
    by code_simp+
  have c1: "staleness ''/'' ?fs1 ?kha ?idl ?js = Inr RebuildBindingsOnly"
    using staleness_case_order [of "''/''" ?fs1 ?js ?kha ?idl] a1 by blast
  have c2: "staleness ''/'' ?fs2 ?kha ?idl ?js = Inr RebuildAll"
    using staleness_case_order [of "''/''" ?fs2 ?js ?kha ?idl] a2 by simp
  have c3: "staleness ''/'' ?fs3 ?kha ?idl ?js = Inr RebuildBindingsOnly"
    using staleness_case_order [of "''/''" ?fs3 ?js ?kha ?idl] a3 by simp
  have c4: "staleness ''/'' ?fs4 ?kha ?idl ?js = Inr NoOp"
    using staleness_case_order [of "''/''" ?fs4 ?js ?kha ?idl] a4 by simp
  from c1 c2 c3 c4 show ?thesis by blast
qed

section \<open>The object artifact's path\<close>

text \<open>
  C2. The object artifact of a source is claimed to be the source's path relative to the
  root with its extension replaced by \<open>.bc\<close>, under \<open>khabind/bytecode/\<close>. The code cuts
  the relative path at the length of the absolute path minus that of the extension, so
  for the source \<open>/lib/sub/foo.cpp\<close> of the root \<open>/lib\<close> nothing is cut and the
  artifact is \<open>sub/foo.cpp.bc\<close>, not \<open>sub/foo.bc\<close>.
\<close>

theorem targetFileOf_keeps_extension:
  "targetFileOf ''/'' ''/lib'' ''/lib/sub/foo.cpp'' = ''/lib/khabind/bytecode/sub/foo.cpp.bc'' \<and>
   targetFileOf ''/'' ''/lib'' ''/lib/sub/foo.cpp'' \<noteq> ''/lib/khabind/bytecode/sub/foo.bc'' \<and>
   path_relative ''/'' ''/lib'' ''/lib/sub/foo.cpp'' = ''sub/foo.cpp'' \<and>
   path_extname ''/lib/sub/foo.cpp'' = ''.cpp''"
  by code_simp

section \<open>Source discovery\<close>

lemma addSourcesIn_acc_all:
  fixes acc :: "string list"
  shows "\<forall>acc'. addSourcesIn cwd dir es acc' = acc' @ addSourcesIn cwd dir es []"
proof (induction cwd dir es acc rule: addSourcesIn.induct)
  case (1 cwd dir sourceFiles)
  show ?case by simp
next
  case (2 cwd dir item m es rest sourceFiles)
  let ?d = "path_resolve cwd [dir, item]"
  show ?case
  proof
    fix acc'
    have "addSourcesIn cwd dir ((item, Dir m es) # rest) acc'
        = addSourcesIn cwd dir rest (addSourcesIn cwd ?d es acc')" by simp
    also have "\<dots> = addSourcesIn cwd ?d es acc' @ addSourcesIn cwd dir rest []"
      using "2.IH"(2) by blast
    also have "\<dots> = acc' @ addSourcesIn cwd ?d es [] @ addSourcesIn cwd dir rest []"
      using "2.IH"(1) by (metis append.assoc)
    also have "addSourcesIn cwd ?d es [] @ addSourcesIn cwd dir rest []
        = addSourcesIn cwd dir rest (addSourcesIn cwd ?d es [])"
      using "2.IH"(2) by metis
    finally show "addSourcesIn cwd dir ((item, Dir m es) # rest) acc'
        = acc' @ addSourcesIn cwd dir ((item, Dir m es) # rest) []" by simp
  qed
next
  case (3 cwd dir item m rest sourceFiles)
  show ?case
  proof
    fix acc'
    let ?new = "(if endsWith item ''.cpp'' \<or> endsWith item ''.c''
        then [path_resolve cwd [dir, item]] else [])"
    have "addSourcesIn cwd dir ((item, File m) # rest) acc'
        = addSourcesIn cwd dir rest (acc' @ ?new)" by simp
    also have "\<dots> = acc' @ ?new @ addSourcesIn cwd dir rest []"
      using "3.IH" by (metis append.assoc)
    also have "?new @ addSourcesIn cwd dir rest [] = addSourcesIn cwd dir rest ?new"
      using "3.IH" by metis
    finally show "addSourcesIn cwd dir ((item, File m) # rest) acc'
        = acc' @ addSourcesIn cwd dir ((item, File m) # rest) []" by simp
  qed
qed


lemma addSourcesIn_acc: "addSourcesIn cwd dir es acc = acc @ addSourcesIn cwd dir es []"
  using addSourcesIn_acc_all by blast

lemma addSourcesIn_Dir:
  "addSourcesIn cwd dir ((item, Dir m es) # rest) [] =
     addSourcesIn cwd (path_resolve cwd [dir, item]) es [] @ addSourcesIn cwd dir rest []"
  using addSourcesIn_acc [of cwd dir rest "addSourcesIn cwd (path_resolve cwd [dir, item]) es []"]
  by simp

lemma addSourcesIn_File:
  "addSourcesIn cwd dir ((item, File m) # rest) [] =
     (if endsWith item ''.cpp'' \<or> endsWith item ''.c'' then [path_resolve cwd [dir, item]] else [])
       @ addSourcesIn cwd dir rest []"
  using addSourcesIn_acc [of cwd dir rest "[path_resolve cwd [dir, item]]"]
  by simp

lemma fileUnder_mono:
  "fileUnder cwd dir es p name \<Longrightarrow> set es \<subseteq> set es' \<Longrightarrow> fileUnder cwd dir es' p name"
  by (erule fileUnder.cases) (auto intro: fileUnder.intros)

lemma addSourcesIn_sound:
  fixes acc :: "string list"
  shows "\<forall>p. p \<in> set (addSourcesIn cwd dir es []) \<longrightarrow>
     (\<exists>item. fileUnder cwd dir es p item \<and> (endsWith item ''.cpp'' \<or> endsWith item ''.c''))"
proof (induction cwd dir es acc rule: addSourcesIn.induct)
  case (1 cwd dir sourceFiles)
  show ?case by simp
next
  case (2 cwd dir item m es rest sourceFiles)
  show ?case
  proof (intro allI impI)
    fix p
    assume "p \<in> set (addSourcesIn cwd dir ((item, Dir m es) # rest) [])"
    then consider "p \<in> set (addSourcesIn cwd (path_resolve cwd [dir, item]) es [])"
      | "p \<in> set (addSourcesIn cwd dir rest [])"
      by (auto simp add: addSourcesIn_Dir simp del: addSourcesIn.simps)
    then show "\<exists>i. fileUnder cwd dir ((item, Dir m es) # rest) p i \<and>
        (endsWith i ''.cpp'' \<or> endsWith i ''.c'')"
    proof cases
      case 1
      with "2.IH"(1) obtain i where "fileUnder cwd (path_resolve cwd [dir, item]) es p i"
        "endsWith i ''.cpp'' \<or> endsWith i ''.c''" by blast
      then show ?thesis
        using fileUnder.below [of item m es "(item, Dir m es) # rest" cwd dir p i] by auto
    next
      case 2
      with "2.IH"(2) obtain i where "fileUnder cwd dir rest p i"
        "endsWith i ''.cpp'' \<or> endsWith i ''.c''" by blast
      then show ?thesis
        using fileUnder_mono [of cwd dir rest p i "(item, Dir m es) # rest"] by auto
    qed
  qed
next
  case (3 cwd dir item m rest sourceFiles)
  show ?case
  proof (intro allI impI)
    fix p
    assume "p \<in> set (addSourcesIn cwd dir ((item, File m) # rest) [])"
    then consider "p = path_resolve cwd [dir, item]" "endsWith item ''.cpp'' \<or> endsWith item ''.c''"
      | "p \<in> set (addSourcesIn cwd dir rest [])"
      by (auto simp add: addSourcesIn_File simp del: addSourcesIn.simps split: if_splits)
    then show "\<exists>i. fileUnder cwd dir ((item, File m) # rest) p i \<and>
        (endsWith i ''.cpp'' \<or> endsWith i ''.c'')"
    proof cases
      case 1
      then show ?thesis
        using fileUnder.here [of item m "(item, File m) # rest" cwd dir] by auto
    next
      case 2
      with "3.IH" obtain i where "fileUnder cwd dir rest p i"
        "endsWith i ''.cpp'' \<or> endsWith i ''.c''" by blast
      then show ?thesis
        using fileUnder_mono [of cwd dir rest p i "(item, File m) # rest"] by auto
    qed
  qed
qed

lemma addSourcesIn_entry_File:
  "(item, File m) \<in> set es \<Longrightarrow> endsWith item ''.cpp'' \<or> endsWith item ''.c'' \<Longrightarrow>
     path_resolve cwd [dir, item] \<in> set (addSourcesIn cwd dir es [])"
proof (induction es)
  case Nil
  then show ?case by simp
next
  case (Cons e es)
  obtain i n where e: "e = (i, n)" by (cases e)
  show ?case
  proof (cases n)
    case (File m')
    with Cons e show ?thesis by (auto simp add: addSourcesIn_File simp del: addSourcesIn.simps split: if_splits)
  next
    case (Dir m' es')
    with Cons e show ?thesis by (auto simp add: addSourcesIn_Dir simp del: addSourcesIn.simps)
  qed
qed

lemma addSourcesIn_entry_Dir:
  "(item, Dir m es') \<in> set es \<Longrightarrow> p \<in> set (addSourcesIn cwd (path_resolve cwd [dir, item]) es' []) \<Longrightarrow>
     p \<in> set (addSourcesIn cwd dir es [])"
proof (induction es)
  case Nil
  then show ?case by simp
next
  case (Cons e es)
  obtain i n where e: "e = (i, n)" by (cases e)
  show ?case
  proof (cases n)
    case (File m')
    with Cons e show ?thesis by (auto simp add: addSourcesIn_File simp del: addSourcesIn.simps split: if_splits)
  next
    case (Dir m'' es'')
    with Cons e show ?thesis by (auto simp add: addSourcesIn_Dir simp del: addSourcesIn.simps)
  qed
qed

lemma addSourcesIn_complete:
  "fileUnder cwd dir es p item \<Longrightarrow> endsWith item ''.cpp'' \<or> endsWith item ''.c'' \<Longrightarrow>
     p \<in> set (addSourcesIn cwd dir es [])"
proof (induction rule: fileUnder.induct)
  case (here item m es dir)
  then show ?case by (rule addSourcesIn_entry_File)
next
  case (below item m es' es dir p name)
  then show ?case using addSourcesIn_entry_Dir by blast
qed

text \<open>
  C9. Discovery walks the tree to any depth and collects exactly the files whose names
  end in \<open>.cpp\<close> or \<open>.c\<close>: a root that does not exist or is not a directory adds
  nothing, a directory without such files adds nothing, and what a discovery appends
  does not depend on what was found before, so two discoveries of the same tree append
  the same sequence.
\<close>

theorem discovery_exact:
  "addSources cwd fs dir found = found @ addSources cwd fs dir [] \<and>
   addSources cwd fs dir (addSources cwd fs dir found)
     = found @ addSources cwd fs dir [] @ addSources cwd fs dir [] \<and>
   (statSync cwd fs dir = None \<longrightarrow> addSources cwd fs dir [] = []) \<and>
   (\<forall>m. statSync cwd fs dir = Some (File m) \<longrightarrow> addSources cwd fs dir [] = []) \<and>
   (\<forall>m es. statSync cwd fs dir = Some (Dir m es) \<longrightarrow>
      set (addSources cwd fs dir []) =
        {p. \<exists>item. fileUnder cwd dir es p item \<and> (endsWith item ''.cpp'' \<or> endsWith item ''.c'')}) \<and>
   (\<forall>m es. statSync cwd fs dir = Some (Dir m es) \<and>
      (\<forall>p item. fileUnder cwd dir es p item \<longrightarrow> \<not> (endsWith item ''.cpp'' \<or> endsWith item ''.c''))
      \<longrightarrow> addSources cwd fs dir [] = [])"
proof -
  have acc: "addSources cwd fs dir xs = xs @ addSources cwd fs dir []" for xs
    using addSourcesIn_acc [of cwd dir _ xs]
    by (auto simp add: addSources_def split: option.splits fsnode.splits)
  have twice: "addSources cwd fs dir (addSources cwd fs dir found)
     = found @ addSources cwd fs dir [] @ addSources cwd fs dir []"
    using acc [of "addSources cwd fs dir found"] acc [of found] by simp
  have exact: "set (addSources cwd fs dir []) =
        {p. \<exists>item. fileUnder cwd dir es p item \<and> (endsWith item ''.cpp'' \<or> endsWith item ''.c'')}"
    if "statSync cwd fs dir = Some (Dir m es)" for m es
    using that addSourcesIn_sound [of cwd dir es] addSourcesIn_complete [of cwd dir es]
    by (auto simp add: addSources_def)
  have none: "addSources cwd fs dir [] = []"
    if "statSync cwd fs dir = Some (Dir m es)"
      and "\<forall>p item. fileUnder cwd dir es p item \<longrightarrow> \<not> (endsWith item ''.cpp'' \<or> endsWith item ''.c'')"
    for m es
  proof -
    from exact [OF that(1)] that(2) have "set (addSources cwd fs dir []) = {}" by auto
    then show ?thesis by simp
  qed
  show ?thesis
    using acc [of found] twice exact none
    by (simp add: addSources_def)
qed

theorem discovery_exact_witness:
  "addSources ''/'' (builtSource 5) ''/lib'' [''/x.c'']
     = [''/x.c''] @ addSources ''/'' (builtSource 5) ''/lib'' [] \<and>
   addSources ''/'' (builtSource 5) ''/lib'' [] = [''/lib/src/foo.cpp''] \<and>
   addSources ''/'' (builtSource 5) ''/lib/missing'' [] = [] \<and>
   addSources ''/'' (builtSource 5) ''/lib/khafile.js'' [] = [] \<and>
   addSources ''/'' (builtSource 5) ''/lib/khabind'' [] = [] \<and>
   set (addSources ''/'' (builtSource 5) ''/lib/src'' []) =
     {p. \<exists>item. fileUnder ''/'' ''/lib/src'' [(''foo.cpp'', File 5)] p item \<and>
          (endsWith item ''.cpp'' \<or> endsWith item ''.c'')}"
proof -
  let ?fs = "builtSource 5"
  have a: "statSync ''/'' ?fs ''/lib/missing'' = None" by code_simp
  have b: "statSync ''/'' ?fs ''/lib/khafile.js'' = Some (File 1)" by code_simp
  have c: "statSync ''/'' ?fs ''/lib/src'' = Some (Dir 0 [(''foo.cpp'', File 5)])" by code_simp
  have d: "addSources ''/'' ?fs ''/lib'' [] = [''/lib/src/foo.cpp'']" by code_simp
  have e: "addSources ''/'' ?fs ''/lib/khabind'' [] = []" by code_simp
  from discovery_exact [of "''/''" ?fs "''/lib''" "[''/x.c'']"]
  have "addSources ''/'' ?fs ''/lib'' [''/x.c''] = [''/x.c''] @ addSources ''/'' ?fs ''/lib'' []"
    by blast
  moreover from discovery_exact [of "''/''" ?fs "''/lib/missing''" "[]"] a
  have "addSources ''/'' ?fs ''/lib/missing'' [] = []" by blast
  moreover from discovery_exact [of "''/''" ?fs "''/lib/khafile.js''" "[]"] b
  have "addSources ''/'' ?fs ''/lib/khafile.js'' [] = []" by blast
  moreover from discovery_exact [of "''/''" ?fs "''/lib/src''" "[]"] c
  have "set (addSources ''/'' ?fs ''/lib/src'' []) =
     {p. \<exists>item. fileUnder ''/'' ''/lib/src'' [(''foo.cpp'', File 5)] p item \<and>
          (endsWith item ''.cpp'' \<or> endsWith item ''.c'')}" by blast
  ultimately show ?thesis using d e by blast
qed

section \<open>Facts about the toolchain, the units, the jobs and the link\<close>

lemma fold_stderr: "fold (\<lambda>data stderr. stderr @ data) xs acc = acc @ concat xs"
  by (induction xs arbitrary: acc) auto

lemma ensure_None_iff:
  "fst (ensureEmscripten w s) = None \<longleftrightarrow> emsdk s \<noteq> Str [] \<or> env_EMSCRIPTEN w \<noteq> None"
  by (auto simp: ensureEmscripten_def emit_def Let_def split: option.splits jsstring.splits)

lemma ensure_resolved:
  "resolved w s \<Longrightarrow> fst (ensureEmscripten w s) = None \<and> resolved w (snd (ensureEmscripten w s))"
  by (auto simp: resolved_def ensureEmscripten_def emit_def Let_def split: option.splits jsstring.splits)

lemma ensure_inv:
  "toolInv w s \<Longrightarrow> fst (ensureEmscripten w s) = None \<Longrightarrow> resolved w (snd (ensureEmscripten w s))"
  by (auto simp: toolInv_def resolved_def ensureEmscripten_def emit_def Let_def split: option.splits jsstring.splits)

lemma ensure_frame:
  "disk (snd (ensureEmscripten w s)) = disk s \<and>
   invalidateCache (snd (ensureEmscripten w s)) = invalidateCache s \<and>
   targetFiles (snd (ensureEmscripten w s)) = targetFiles s \<and>
   sourceFiles (snd (ensureEmscripten w s)) = sourceFiles s"
  by (auto simp: ensureEmscripten_def emit_def Let_def split: option.splits jsstring.splits)

lemma ensure_trace:
  "\<exists>ev. trace (snd (ensureEmscripten w s)) = trace s @ ev \<and> (\<forall>c a d. Spawn c a d \<notin> set ev) \<and> (\<forall>c a d. SpawnSync c a d \<notin> set ev)"
  by (auto simp: ensureEmscripten_def emit_def Let_def split: option.splits jsstring.splits)



lemma compile_trace:
  assumes "compileSource w libRoot srcDir oa ra file s = ((n, r), s')"
  shows "\<exists>ev. trace s' = trace s @ ev \<and> (n \<longleftrightarrow> (\<exists>c a d. Spawn c a d \<in> set ev)) \<and>
    (\<forall>c a d. SpawnSync c a d \<notin> set ev) \<and>
    (invalidateCache s' \<longleftrightarrow> invalidateCache s \<or> n)"
  using assms
  by (auto simp: compileSource_def Let_def onClose_def emit_def ensureEmscripten_def
      split: option.splits bool.splits prod.splits if_splits jsstring.splits)



lemma startBuild_frame:
  "trace (startBuild w libRoot bo s) = trace s \<and> disk (startBuild w libRoot bo s) = disk s \<and>
   emsdk (startBuild w libRoot bo s) = Str [] \<and> \<not> invalidateCache (startBuild w libRoot bo s) \<and>
   targetFiles (startBuild w libRoot bo s) = []"
  by (simp add: startBuild_def Let_def)

lemma linkStage_closed:
  "\<not> invalidateCache s \<Longrightarrow>
   existsSync (workdir w) (disk s) (path_join [libRoot, ''khabind'', nativeLib bo @ ''.js'']) \<Longrightarrow>
   linkStage w libRoot bo oa s = (None, s)"
  by (simp add: linkStage_def)




section \<open>A failed compile\<close>




section \<open>Which sources are skipped\<close>




section \<open>When a unit fails\<close>

text \<open>
  C5. A unit is rejected if and only if the compiler ran and the text accumulated from
  its stderr is not empty; that text is the rejection's message. The exit code plays no
  part: the process \<open>p\<close> is arbitrary, and in the example it exits with code 0.
\<close>

theorem compile_failed_iff_stderr:
  assumes "\<forall>cmd args cwd d. fst (spawn w cmd args cwd d) = p"
  shows "(snd (fst (compileSource w libRoot srcDir oa ra src s)) = Rejected msg \<longleftrightarrow>
            fst (fst (compileSource w libRoot srcDir oa ra src s)) \<and>
            concat (stderr_data p) \<noteq> [] \<and> msg = concat (stderr_data p)) \<and>
         (fst (fst (compileSource w libRoot srcDir oa ra src s)) \<longrightarrow>
            snd (fst (compileSource w libRoot srcDir oa ra src s)) =
              (if concat (stderr_data p) \<noteq> [] then Rejected (concat (stderr_data p))
               else Resolved))"
proof -
  have p: "fst (spawn w cmd args cwd d) = p" for cmd args cwd d
    using assms by blast
  show ?thesis
    by (auto simp: compileSource_def Let_def onClose_def fold_stderr p split_beta
        split: option.splits bool.splits if_splits)
qed

theorem compile_failed_iff_stderr_witness:
  "exit_code \<lparr>stderr_data = [''foo.cpp:1: '', ''error''], exit_code = 0\<rparr> = 0 \<and>
   fst (compileSource complainingWorld ''/lib'' ''/lib/src'' ''-O2'' False ''/lib/src/foo.cpp''
     (state0 oneSource)) = (True, Rejected ''foo.cpp:1: error'')"
proof -
  let ?p = "\<lparr>stderr_data = [''foo.cpp:1: '', ''error''], exit_code = 0\<rparr>"
  have a: "\<forall>cmd args cwd d. fst (spawn complainingWorld cmd args cwd d) = ?p"
    by (simp add: complainingWorld_def quietWorld_def)
  have n: "fst (fst (compileSource complainingWorld ''/lib'' ''/lib/src'' ''-O2'' False
     ''/lib/src/foo.cpp'' (state0 oneSource)))" by code_simp
  from compile_failed_iff_stderr [OF a, of "''/lib''" "''/lib/src''" "''-O2''" False
      "''/lib/src/foo.cpp''" "state0 oneSource"] n
  have "snd (fst (compileSource complainingWorld ''/lib'' ''/lib/src'' ''-O2'' False
     ''/lib/src/foo.cpp'' (state0 oneSource))) = Rejected ''foo.cpp:1: error''"
    by simp
  with n show ?thesis by (simp add: prod_eq_iff)
qed

section \<open>When the link runs\<close>





section \<open>The linker's output\<close>

lemma linkStage_throws:
  "fst (linkStage w libRoot bo oa s) \<in>
     {None, Some (Msg emscriptenMsg),
      Some (TypeError ''Reduce of empty array with no initial value'')}"
  by (auto simp: linkStage_def Let_def ensureEmscripten_def split_beta
      split: option.splits if_splits jsstring.splits list.splits)

lemma linkStage_any_linker:
  "fst (linkStage (w\<lparr>spawnSync := linker\<rparr>) libRoot bo oa s) = fst (linkStage w libRoot bo oa s)"
  by (auto simp: linkStage_def Let_def ensureEmscripten_def split_beta
      split: option.splits if_splits jsstring.splits list.splits)

lemma linkStage_after_linker:
  assumes inv: "\<exists>c a d. SpawnSync c a d \<in> set (drop (length (trace s))
                      (trace (snd (linkStage w libRoot bo oa s))))"
  shows "fst (linkStage w libRoot bo oa s) = None \<and>
      (\<exists>pre c a. trace (snd (linkStage w libRoot bo oa s)) =
         pre @ [SpawnSync c a libRoot]
           @ (if out_stderr (fst (spawnSync w c a libRoot (disk s))) \<noteq> []
              then [LogError (out_stderr (fst (spawnSync w c a libRoot (disk s))))] else [])
           @ (if out_stdout (fst (spawnSync w c a libRoot (disk s))) \<noteq> []
              then [LogInfo (out_stdout (fst (spawnSync w c a libRoot (disk s))))] else []))"
proof (cases "invalidateCache s \<or>
     \<not> existsSync (workdir w) (disk s) (path_join [libRoot, ''khabind'', nativeLib bo @ ''.js''])")
  case False
  then have "linkStage w libRoot bo oa s = (None, s)" by (simp add: linkStage_def)
  with inv show ?thesis by simp
next
  case gate: True
  let ?s1 = "emit (LogInfo ''    Linking Javascript Library'') s"
  obtain x s2 where e: "ensureEmscripten w ?s1 = (x, s2)" by (metis prod.exhaust)
  from ensure_trace [of w ?s1] e obtain ev where ev: "trace s2 = trace ?s1 @ ev"
    "\<forall>c a d. SpawnSync c a d \<notin> set ev" by auto
  have t1: "trace ?s1 = trace s @ [LogInfo ''    Linking Javascript Library'']"
    by (simp add: emit_def)
  have d2: "disk s2 = disk s"
    using ensure_frame [of w ?s1] e by (simp add: emit_def)
  have quiet: "\<not> (\<exists>c a d. SpawnSync c a d \<in> set (drop (length (trace s)) (trace s2)))"
    using ev t1 by auto
  show ?thesis
  proof (cases x)
    case (Some err)
    with gate e have "linkStage w libRoot bo oa s = (Some err, s2)"
      by (simp add: linkStage_def)
    with inv quiet show ?thesis by simp
  next
    case None
    show ?thesis
    proof (cases "emccArgs bo")
      case Nil
      with gate e None have "snd (linkStage w libRoot bo oa s) = s2"
        by (simp add: linkStage_def)
      with inv quiet show ?thesis by simp
    next
      case (Cons a as)
      let ?args = "linkArgs oa bo (foldl (\<lambda>a b. a @ '' '' @ b) a as)"
      let ?s3 = "emit (SpawnSync (emcc s2) (targetFiles s2 @ ?args) libRoot)
          (emit (LogInfo (''    running emcc: emcc '' @ join_with '' '' ?args)) s2)"
      let ?res = "fst (spawnSync w (emcc s2) (targetFiles s2 @ ?args) libRoot (disk s))"
      from gate e None Cons d2 have
        "fst (linkStage w libRoot bo oa s) = None"
        "trace (snd (linkStage w libRoot bo oa s)) = trace ?s3
           @ (if out_stderr ?res \<noteq> [] then [LogError (out_stderr ?res)] else [])
           @ (if out_stdout ?res \<noteq> [] then [LogInfo (out_stdout ?res)] else [])"
        by (simp_all add: linkStage_def Let_def split_beta emit_def)
      moreover have "trace ?s3 = (trace s2 @ [LogInfo (''    running emcc: emcc '' @ join_with '' '' ?args)])
          @ [SpawnSync (emcc s2) (targetFiles s2 @ ?args) libRoot]"
        by (simp add: emit_def)
      ultimately show ?thesis by (metis append.assoc)
    qed
  qed
qed

text \<open>
  C8. The link stage throws only for a missing toolchain variable or for empty
  \<open>emccArgs\<close>, and whether it throws does not depend on the linker at all. Once the
  linker has been invoked the stage completes: what the linker wrote to stderr, if
  anything, is logged as an error, what it wrote to stdout, if anything, is logged as
  information, and nothing else follows.
\<close>

theorem link_stderr_is_diagnostic_only:
  "fst (linkStage w libRoot bo oa s) \<in>
     {None, Some (Msg emscriptenMsg),
      Some (TypeError ''Reduce of empty array with no initial value'')} \<and>
   fst (linkStage (w\<lparr>spawnSync := linker\<rparr>) libRoot bo oa s) = fst (linkStage w libRoot bo oa s) \<and>
   ((\<exists>c a d. SpawnSync c a d \<in> set (drop (length (trace s))
                (trace (snd (linkStage w libRoot bo oa s))))) \<longrightarrow>
      fst (linkStage w libRoot bo oa s) = None \<and>
      (\<exists>pre c a. trace (snd (linkStage w libRoot bo oa s)) =
         pre @ [SpawnSync c a libRoot]
           @ (if out_stderr (fst (spawnSync w c a libRoot (disk s))) \<noteq> []
              then [LogError (out_stderr (fst (spawnSync w c a libRoot (disk s))))] else [])
           @ (if out_stdout (fst (spawnSync w c a libRoot (disk s))) \<noteq> []
              then [LogInfo (out_stdout (fst (spawnSync w c a libRoot (disk s))))] else [])))"
  using linkStage_throws [of w libRoot bo oa s]
    linkStage_any_linker [where w = w and linker = linker and libRoot = libRoot and bo = bo
      and oa = oa and s = s]
    linkStage_after_linker [where w = w and s = s and libRoot = libRoot and bo = bo and oa = oa]
  by blast

theorem link_stderr_is_diagnostic_only_witness:
  "fst (linkStage noisyLinkerWorld ''/lib'' demoBind ''-O2''
       ((state0 oneSource)\<lparr>invalidateCache := True\<rparr>)) = None \<and>
   (\<exists>pre c a. trace (snd (linkStage noisyLinkerWorld ''/lib'' demoBind ''-O2''
       ((state0 oneSource)\<lparr>invalidateCache := True\<rparr>))) =
      pre @ [SpawnSync c a ''/lib'', LogError ''warning: unused'', LogInfo ''linked''])"
proof -
  let ?s = "(state0 oneSource)\<lparr>invalidateCache := True\<rparr>"
  have "SpawnSync ''/emsdk/emcc''
      [''-O2'', ''-s'', ''EXPORT_NAME=api'', ''-s'', ''MODULARIZE=1'', ''-s'', ''SINGLE_FILE=1'',
       ''-s'', ''WASM=0'', ''-s'', ''X=1'', ''-o'', ''khabind/api.js''] ''/lib''
     \<in> set (drop (length (trace ?s))
          (trace (snd (linkStage noisyLinkerWorld ''/lib'' demoBind ''-O2'' ?s))))"
    by code_simp
  then have inv: "\<exists>c a d. SpawnSync c a d \<in> set (drop (length (trace ?s))
          (trace (snd (linkStage noisyLinkerWorld ''/lib'' demoBind ''-O2'' ?s))))"
    by blast
  have res: "fst (spawnSync noisyLinkerWorld c a ''/lib'' (disk ?s))
      = \<lparr>out_stdout = ''linked'', out_stderr = ''warning: unused'', out_status = 1\<rparr>" for c a
    by (simp add: noisyLinkerWorld_def)
  from link_stderr_is_diagnostic_only [of noisyLinkerWorld "''/lib''" demoBind "''-O2''" ?s] inv
  show ?thesis unfolding res by simp
qed

section \<open>Exit codes\<close>

lemma ensure_exit: "ensureEmscripten (withExitCodes f g w) s = ensureEmscripten w s"
  by (simp add: ensureEmscripten_def withExitCodes_def)

lemma compileSource_exit:
  "compileSource (withExitCodes f g w) libRoot srcDir oa ra src s
     = compileSource w libRoot srcDir oa ra src s"
proof -
  have w: "workdir (withExitCodes f g w) = workdir w"
    "ensureDirSync (withExitCodes f g w) = ensureDirSync w"
    by (simp_all add: withExitCodes_def)
  have sp: "spawn (withExitCodes f g w) c a d fs
      = (fst (spawn w c a d fs)\<lparr>exit_code := f (exit_code (fst (spawn w c a d fs)))\<rparr>,
         snd (spawn w c a d fs))" for c a d fs
    by (simp add: withExitCodes_def split_beta)
  show ?thesis
    by (simp add: compileSource_def ensure_exit w sp onClose_def split_beta Let_def
        split: option.split bool.split)
qed

lemma runJobs_exit:
  "runJobs (withExitCodes f g w) libRoot srcDir oa ra srcs s = runJobs w libRoot srcDir oa ra srcs s"
  by (induction srcs arbitrary: s) (simp_all add: compileSource_exit)

lemma linkStage_exit:
  "linkStage (withExitCodes f g w) libRoot bo oa s = linkStage w libRoot bo oa s"
proof -
  let ?w = "withExitCodes f g w"
  have w: "workdir ?w = workdir w"
    by (simp_all add: withExitCodes_def)
  have sp: "spawnSync ?w c a d fs
      = (fst (spawnSync w c a d fs)\<lparr>out_status := g (out_status (fst (spawnSync w c a d fs)))\<rparr>,
         snd (spawnSync w c a d fs))" for c a d fs
    by (simp add: withExitCodes_def split_beta)
  show ?thesis
  proof (cases "invalidateCache s \<or>
     \<not> existsSync (workdir w) (disk s) (path_join [libRoot, ''khabind'', nativeLib bo @ ''.js''])")
    case False
    then show ?thesis by (simp add: linkStage_def w)
  next
    case gate: True
    let ?s1 = "emit (LogInfo ''    Linking Javascript Library'') s"
    obtain x s2 where e: "ensureEmscripten w ?s1 = (x, s2)" by (metis prod.exhaust)
    show ?thesis
    proof (cases x)
      case (Some err)
      with gate e show ?thesis by (simp add: linkStage_def w ensure_exit)
    next
      case None
      show ?thesis
      proof (cases "emccArgs bo")
        case Nil
        with gate e None show ?thesis by (simp add: linkStage_def w ensure_exit)
      next
        case (Cons a as)
        with gate e None show ?thesis
          by (simp add: linkStage_def w ensure_exit sp split_beta Let_def)
      qed
    qed
  qed
qed

lemma generateBindings_exit:
  "generateBindings (withExitCodes f g w) libRoot bo opts korehl s
     = generateBindings w libRoot bo opts korehl s"
proof -
  have w: "workdir (withExitCodes f g w) = workdir w"
    "writeFile (withExitCodes f g w) = writeFile w"
    "executeHaxe (withExitCodes f g w) = executeHaxe w"
    by (simp_all add: withExitCodes_def)
  have sb: "startBuild (withExitCodes f g w) libRoot bo s' = startBuild w libRoot bo s'" for s'
    by (simp add: startBuild_def w)
  have ca: "compileAll (withExitCodes f g w) libRoot bo ra s' = compileAll w libRoot bo ra s'" for ra s'
    by (simp add: compileAll_def sb runJobs_exit w)
  have eb: "emscriptenBuild (withExitCodes f g w) libRoot bo ra s' = emscriptenBuild w libRoot bo ra s'"
    for ra s'
    by (simp add: emscriptenBuild_def ca linkStage_exit split: prod.split settled.split)
  have ab: "afterBindings (withExitCodes f g w) libRoot bo opts ra s'
      = afterBindings w libRoot bo opts ra s'" for ra s'
    by (simp add: afterBindings_def eb w Let_def)
  show ?thesis
    by (simp add: generateBindings_def ab w Let_def split: sum.split prod.split)
qed

lemma compile_quiet_resolves:
  assumes "\<forall>cmd args cwd d. concat (stderr_data (fst (spawn w cmd args cwd d))) = []"
    and "fst (fst (compileSource w libRoot srcDir oa ra src s))"
  shows "snd (fst (compileSource w libRoot srcDir oa ra src s)) = Resolved"
  using assms
  by (auto simp: compileSource_def Let_def onClose_def fold_stderr split_beta
      split: option.splits bool.splits if_splits)

text \<open>
  C10. No exit code is read. In a world whose subprocesses print the same and exit with
  other codes, \<open>generateBindings\<close>, each compilation unit and the link stage do exactly
  the same. A compiler with empty stderr gives a resolved unit whatever its exit code,
  and a link stage that has invoked the linker does not throw whatever its exit code.
\<close>

theorem exit_codes_not_inspected:
  "generateBindings (withExitCodes f g w) libRoot bo opts korehl s
     = generateBindings w libRoot bo opts korehl s \<and>
   compileSource (withExitCodes f g w) libRoot srcDir oa ra src s
     = compileSource w libRoot srcDir oa ra src s \<and>
   linkStage (withExitCodes f g w) libRoot bo oa s = linkStage w libRoot bo oa s \<and>
   ((\<forall>cmd args cwd d. concat (stderr_data (fst (spawn w cmd args cwd d))) = []) \<and>
      fst (fst (compileSource w libRoot srcDir oa ra src s)) \<longrightarrow>
      snd (fst (compileSource w libRoot srcDir oa ra src s)) = Resolved) \<and>
   ((\<exists>c a d. SpawnSync c a d \<in> set (drop (length (trace s))
                (trace (snd (linkStage w libRoot bo oa s))))) \<longrightarrow>
      fst (linkStage w libRoot bo oa s) = None)"
  using generateBindings_exit [of f g w libRoot bo opts korehl s]
    compileSource_exit [of f g w libRoot srcDir oa ra src s]
    linkStage_exit [of f g w libRoot bo oa s]
    compile_quiet_resolves [of w libRoot srcDir oa ra src s]
    linkStage_after_linker [of s w libRoot bo oa]
  by blast

theorem exit_codes_not_inspected_witness:
  "exit_code (fst (spawn (withExitCodes (\<lambda>c. 1) (\<lambda>c. 1) quietWorld) ''emcc'' [] ''/lib'' oneSource)) = 1 \<and>
   out_status (fst (spawnSync (withExitCodes (\<lambda>c. 1) (\<lambda>c. 1) quietWorld) ''emcc'' [] ''/lib'' oneSource)) = 1 \<and>
   compileSource (withExitCodes (\<lambda>c. 1) (\<lambda>c. 1) quietWorld) ''/lib'' ''/lib/src'' ''-O2'' False
       ''/lib/src/foo.cpp'' (state0 oneSource)
     = compileSource quietWorld ''/lib'' ''/lib/src'' ''-O2'' False ''/lib/src/foo.cpp'' (state0 oneSource) \<and>
   fst (compileSource (withExitCodes (\<lambda>c. 1) (\<lambda>c. 1) quietWorld) ''/lib'' ''/lib/src'' ''-O2'' False
       ''/lib/src/foo.cpp'' (state0 oneSource)) = (True, Resolved) \<and>
   fst (linkStage (withExitCodes (\<lambda>c. 1) (\<lambda>c. 1) quietWorld) ''/lib'' demoBind ''-O2''
       ((state0 oneSource)\<lparr>invalidateCache := True\<rparr>)) = None \<and>
   fst (generateBindings (withExitCodes (\<lambda>c. 1) (\<lambda>c. 1) quietWorld) ''/lib'' demoBind kromOptions
       False (state0 oneSource)) = Returned"
proof -
  let ?w = "withExitCodes (\<lambda>c. 1) (\<lambda>c. 1) quietWorld"
  let ?s = "state0 oneSource" and ?s' = "(state0 oneSource)\<lparr>invalidateCache := True\<rparr>"
  have codes: "exit_code (fst (spawn ?w ''emcc'' [] ''/lib'' oneSource)) = 1"
    "out_status (fst (spawnSync ?w ''emcc'' [] ''/lib'' oneSource)) = 1"
    by (simp_all add: withExitCodes_def quietWorld_def)
  have quiet: "\<forall>cmd args cwd d. concat (stderr_data (fst (spawn ?w cmd args cwd d))) = []"
    by (simp add: withExitCodes_def quietWorld_def)
  have n: "fst (fst (compileSource quietWorld ''/lib'' ''/lib/src'' ''-O2'' False
      ''/lib/src/foo.cpp'' ?s))" by code_simp
  have "SpawnSync ''/emsdk/emcc''
      [''-O2'', ''-s'', ''EXPORT_NAME=api'', ''-s'', ''MODULARIZE=1'', ''-s'', ''SINGLE_FILE=1'',
       ''-s'', ''WASM=0'', ''-s'', ''X=1'', ''-o'', ''khabind/api.js''] ''/lib''
     \<in> set (drop (length (trace ?s')) (trace (snd (linkStage quietWorld ''/lib'' demoBind ''-O2'' ?s'))))"
    by code_simp
  then have inv: "\<exists>c a d. SpawnSync c a d \<in> set (drop (length (trace ?s'))
      (trace (snd (linkStage quietWorld ''/lib'' demoBind ''-O2'' ?s'))))" by blast
  have r: "fst (generateBindings quietWorld ''/lib'' demoBind kromOptions False ?s) = Returned"
    by code_simp
  note a = exit_codes_not_inspected [where f = "\<lambda>c. 1" and g = "\<lambda>c. 1" and w = quietWorld
      and libRoot = "''/lib''" and bo = demoBind and opts = kromOptions and korehl = False
      and srcDir = "''/lib/src''" and oa = "''-O2''" and ra = False and src = "''/lib/src/foo.cpp''"]
  note b = exit_codes_not_inspected [where f = id and g = id and w = ?w
      and libRoot = "''/lib''" and bo = demoBind and opts = kromOptions and korehl = False
      and srcDir = "''/lib/src''" and oa = "''-O2''" and ra = False and src = "''/lib/src/foo.cpp''"]
  have c1: "compileSource ?w ''/lib'' ''/lib/src'' ''-O2'' False ''/lib/src/foo.cpp'' ?s
     = compileSource quietWorld ''/lib'' ''/lib/src'' ''-O2'' False ''/lib/src/foo.cpp'' ?s"
    using a [where s = ?s] by blast
  have c2: "snd (fst (compileSource ?w ''/lib'' ''/lib/src'' ''-O2'' False ''/lib/src/foo.cpp'' ?s))
     = Resolved"
    using b [where s = ?s] quiet n c1 by simp
  have c3: "fst (linkStage ?w ''/lib'' demoBind ''-O2'' ?s') = None"
    using a [where s = ?s'] inv by simp
  have c4: "fst (generateBindings ?w ''/lib'' demoBind kromOptions False ?s) = Returned"
    using a [where s = ?s] r by simp
  from codes c1 c2 c3 c4 n show ?thesis by (simp add: prod_eq_iff)
qed

section \<open>The toolchain is resolved when needed, and once for a non-empty value\<close>

text \<open>
  With the variable absent the first call logs the diagnostic and throws; a non-empty
  value is kept and a whole run reads the environment at most once; and a run in which
  every unit is skipped and the final artifact exists returns without reading it.
\<close>

lemma ensureEmscripten_absent:
  "env_EMSCRIPTEN w = None \<Longrightarrow> emsdk s = Str [] \<Longrightarrow>
     ensureEmscripten w s =
       (Some (Msg emscriptenMsg),
        s\<lparr>emsdk := Undefined, trace := trace s @ [ReadEnv, LogError emscriptenMsg]\<rparr>)"
  by (simp add: ensureEmscripten_def emit_def Let_def)

lemma ensureEmscripten_cached:
  "emsdk s = Str v \<Longrightarrow> v \<noteq> [] \<Longrightarrow> ensureEmscripten w s = (None, s)"
  by (simp add: ensureEmscripten_def)

lemma memo_frame:
  "memo v n (s\<lparr>disk := d\<rparr>) = memo v n s"
  "memo v n (s\<lparr>targetFiles := t\<rparr>) = memo v n s"
  "memo v n (s\<lparr>invalidateCache := b\<rparr>) = memo v n s"
  "e \<noteq> ReadEnv \<Longrightarrow> memo v n (emit e s) = memo v n s"
  by (simp_all add: memo_def emit_def reads_def)

lemma ensure_memo:
  "env_EMSCRIPTEN w = Some v \<Longrightarrow> v \<noteq> [] \<Longrightarrow> memo v n s \<Longrightarrow>
     memo v n (snd (ensureEmscripten w s))"
  by (auto simp: ensureEmscripten_def emit_def memo_def reads_def)

lemma compile_memo:
  assumes "env_EMSCRIPTEN w = Some v" and "v \<noteq> []" and "memo v n s"
  shows "memo v n (snd (compileSource w libRoot srcDir oa ra src s))"
proof -
  have e: "memo v n (snd (ensureEmscripten w s'))" if "memo v n s'" for s'
    using ensure_memo [OF assms(1,2) that] .
  show ?thesis
    using assms(3)
    by (auto simp: compileSource_def Let_def memo_frame split_beta intro!: e
        split: option.splits bool.splits)
qed

lemma runJobs_memo:
  "env_EMSCRIPTEN w = Some v \<Longrightarrow> v \<noteq> [] \<Longrightarrow> memo v n s \<Longrightarrow>
     memo v n (snd (runJobs w libRoot srcDir oa ra srcs s))"
proof (induction srcs arbitrary: s)
  case Nil
  then show ?case by simp
next
  case (Cons src rest)
  from compile_memo [OF Cons.prems, of libRoot srcDir oa ra src]
  have m: "memo v n (snd (compileSource w libRoot srcDir oa ra src s))" .
  obtain k r s1 where c: "compileSource w libRoot srcDir oa ra src s = ((k, r), s1)"
    by (metis prod.exhaust)
  with m have m1: "memo v n s1" by simp
  show ?case
  proof (cases r)
    case Resolved
    with c Cons.IH [OF Cons.prems(1,2) m1] show ?thesis by simp
  next
    case (Rejected e)
    with c m1 show ?thesis by simp
  next
    case Pending
    with c m1 show ?thesis by simp
  qed
qed

lemma linkStage_memo:
  assumes "env_EMSCRIPTEN w = Some v" and "v \<noteq> []" and "memo v n s"
  shows "memo v n (snd (linkStage w libRoot bo oa s))"
proof -
  have e: "memo v n (snd (ensureEmscripten w s'))" if "memo v n s'" for s'
    using ensure_memo [OF assms(1,2) that] .
  show ?thesis
    using assms(3)
    by (auto simp: linkStage_def Let_def memo_frame split_beta intro!: e
        split: option.splits list.splits)
qed

lemma toolchain_read_once:
  assumes "env_EMSCRIPTEN w = Some v" and "v \<noteq> []"
  shows "reads (trace (snd (emscriptenBuild w libRoot bo ra s))) \<le> reads (trace s) + 1"
proof -
  let ?s1 = "startBuild w libRoot bo s"
  have "memo v (reads (trace s)) ?s1" by (simp add: memo_def startBuild_frame)
  from runJobs_memo [OF assms this]
  have m2: "memo v (reads (trace s)) (snd (compileAll w libRoot bo ra s))"
    by (simp add: compileAll_def Let_def)
  obtain r s2 where ca: "compileAll w libRoot bo ra s = (r, s2)" by (metis prod.exhaust)
  with m2 have m: "memo v (reads (trace s)) s2" by simp
  then have m': "memo v (reads (trace s)) (emit (LogInfo e) s2)" for e
    by (simp add: memo_def emit_def reads_def)
  have "memo v (reads (trace s)) (snd (emscriptenBuild w libRoot bo ra s))"
  proof (cases r)
    case Resolved
    with ca linkStage_memo [OF assms m, of libRoot bo "optimizationArgOf bo"] show ?thesis
      by (auto simp add: emscriptenBuild_def split: prod.splits option.splits)
  next
    case (Rejected e)
    with ca linkStage_memo [OF assms m', of libRoot bo "optimizationArgOf bo" e] show ?thesis
      by (auto simp add: emscriptenBuild_def split: prod.splits option.splits)
  next
    case Pending
    with ca m show ?thesis by (simp add: emscriptenBuild_def)
  qed
  then show ?thesis by (auto simp add: memo_def)
qed

lemma compile_skipped_quiet:
  assumes "compileSource w libRoot srcDir oa ra src s = ((k, Resolved), s1)"
    and "\<not> invalidateCache s1"
  shows "reads (trace s1) = reads (trace s) \<and> emsdk s1 = emsdk s"
proof -
  from compile_trace [OF assms(1)] assms(2) have "\<not> k" by blast
  with assms(1) show ?thesis
    by (auto simp: compileSource_def Let_def emit_def reads_def split_beta
        split: option.splits bool.splits)
qed

lemma compile_keeps_flag:
  "invalidateCache s \<Longrightarrow> invalidateCache (snd (compileSource w libRoot srcDir oa ra src s))"
  using compile_trace [of w libRoot srcDir oa ra src s]
  by (metis prod.collapse)

lemma runJobs_keeps_flag:
  "invalidateCache s \<Longrightarrow> invalidateCache (snd (runJobs w libRoot srcDir oa ra srcs s))"
proof (induction srcs arbitrary: s)
  case Nil
  then show ?case by simp
next
  case (Cons src rest)
  obtain k r s1 where c: "compileSource w libRoot srcDir oa ra src s = ((k, r), s1)"
    by (metis prod.exhaust)
  with compile_keeps_flag [OF Cons.prems, of w libRoot srcDir oa ra src]
  have f: "invalidateCache s1" by simp
  show ?case using c f Cons.IH [OF f] by (cases r) simp_all
qed

lemma runJobs_nothing_stale:
  "runJobs w libRoot srcDir oa ra srcs s = (Resolved, s2) \<Longrightarrow> \<not> invalidateCache s2 \<Longrightarrow>
     reads (trace s2) = reads (trace s) \<and> emsdk s2 = emsdk s"
proof (induction srcs arbitrary: s)
  case Nil
  then show ?case by simp
next
  case (Cons src rest)
  obtain k r s1 where c: "compileSource w libRoot srcDir oa ra src s = ((k, r), s1)"
    by (metis prod.exhaust)
  with Cons.prems(1) have r: "r = Resolved"
    and rest: "runJobs w libRoot srcDir oa ra rest s1 = (Resolved, s2)"
    by (cases r; simp)+
  have "\<not> invalidateCache s1"
    using runJobs_keeps_flag [of s1 w libRoot srcDir oa ra rest] rest Cons.prems(2) by auto
  with c r have "reads (trace s1) = reads (trace s) \<and> emsdk s1 = emsdk s"
    using compile_skipped_quiet by blast
  with Cons.IH [OF rest Cons.prems(2)] show ?case by simp
qed

lemma nothing_stale_needs_no_toolchain:
  assumes "fst (compileAll w libRoot bo ra s) = Resolved"
    and "\<not> invalidateCache (snd (compileAll w libRoot bo ra s))"
    and "existsSync (workdir w) (disk (snd (compileAll w libRoot bo ra s)))
           (path_join [libRoot, ''khabind'', nativeLib bo @ ''.js''])"
  shows "fst (emscriptenBuild w libRoot bo ra s) = Returned \<and>
         reads (trace (snd (emscriptenBuild w libRoot bo ra s))) = reads (trace s)"
proof -
  let ?s1 = "startBuild w libRoot bo s"
  obtain s2 where ca: "compileAll w libRoot bo ra s = (Resolved, s2)"
    using assms(1) by (metis prod.collapse)
  then have rj: "runJobs w libRoot (path_resolve (workdir w) [libRoot, sourcesDir bo])
      (optimizationArgOf bo) ra (sourceFiles ?s1) ?s1 = (Resolved, s2)"
    by (simp add: compileAll_def Let_def)
  from assms(2) ca have nf: "\<not> invalidateCache s2" by simp
  from runJobs_nothing_stale [OF rj nf] have "reads (trace s2) = reads (trace s)"
    by (simp add: startBuild_frame)
  moreover from assms(3) ca nf
  have "linkStage w libRoot bo (optimizationArgOf bo) s2 = (None, s2)"
    by (simp add: linkStage_closed)
  ultimately show ?thesis using ca by (simp add: emscriptenBuild_def)
qed

section \<open>The toolchain variable when it is the empty string\<close>

text \<open>
  C7. The toolchain is claimed to be resolved at most once in a run, later calls using
  what was cached without reading the environment again. \<open>ensureEmscripten\<close> takes
  \<open>emsdk\<close> being the empty string for not yet resolved, so with \<open>EMSCRIPTEN\<close> set to
  the empty string every call reads the environment again: in a run with one source to
  compile it is read twice, by the unit and by the link stage.
\<close>

theorem empty_EMSCRIPTEN_is_read_again:
  "ensureEmscripten (quietWorld\<lparr>env_EMSCRIPTEN := Some []\<rparr>) (state0 oneSource)
     = (None, (state0 oneSource)\<lparr>trace := [ReadEnv], emcc := ''emcc''\<rparr>) \<and>
   ensureEmscripten (quietWorld\<lparr>env_EMSCRIPTEN := Some []\<rparr>)
       ((state0 oneSource)\<lparr>trace := [ReadEnv], emcc := ''emcc''\<rparr>)
     = (None, (state0 oneSource)\<lparr>trace := [ReadEnv, ReadEnv], emcc := ''emcc''\<rparr>) \<and>
   filter (\<lambda>e. e = ReadEnv)
     (trace (snd (generateBindings (quietWorld\<lparr>env_EMSCRIPTEN := Some []\<rparr>) ''/lib'' demoBind
        kromOptions False (state0 oneSource)))) = [ReadEnv, ReadEnv] \<and>
   fst (generateBindings (quietWorld\<lparr>env_EMSCRIPTEN := Some []\<rparr>) ''/lib'' demoBind
        kromOptions False (state0 oneSource)) = Returned"
  by code_simp

end
